theory Spec2Isabelle
  imports Main "HOL-Library.Sublist"
begin

section \<open>Python values of the program\<close>

text \<open>
  A Python \<open>str\<close> is a sequence of Unicode code points, so it is modelled as a list of
  naturals; \<open>ascii\<close> embeds an ASCII literal. The source's texts outside ASCII are
  written by code point.
\<close>

type_synonym pystr = "nat list"

definition ascii :: "string \<Rightarrow> pystr" where
  "ascii s = map of_char s"

text \<open>\<open>sep.join(xs)\<close>.\<close>

fun join :: "pystr \<Rightarrow> pystr list \<Rightarrow> pystr" where
  "join sep [] = []"
| "join sep [x] = x"
| "join sep (x # y # ys) = x @ sep @ join sep (y # ys)"

text \<open>\<open>s.split("\n")\<close>: the lines of a text, cut at the code point 10.\<close>

fun split_nl :: "pystr \<Rightarrow> pystr list" where
  "split_nl [] = [[]]"
| "split_nl (c # cs) =
     (if c = 10 then [] # split_nl cs
      else (case split_nl cs of [] \<Rightarrow> [[c]] | l # ls \<Rightarrow> (c # l) # ls))"

text \<open>
  Exceptions are values: the class that was raised and the text \<open>str(e)\<close> gives. Every
  class listed derives from \<open>Exception\<close>, so an \<open>except Exception\<close> clause catches each.
\<close>

datatype exc_class =
    ConnectionError | UnboundLocalError | IndexError | TypeError | KeyError | AttributeError
  | EOFError | JSONDecodeError | OperationalError | OtherException

datatype pyexc = Raise exc_class pystr

fun exc_str :: "pyexc \<Rightarrow> pystr" where
  "exc_str (Raise c msg) = msg"

fun exc_class_of :: "pyexc \<Rightarrow> exc_class" where
  "exc_class_of (Raise c msg) = c"

subsection \<open>Rows of the store and how Python prints them\<close>

text \<open>
  The values \<open>sqlite3\<close> hands to Python: \<open>None\<close>, \<open>int\<close>, \<open>float\<close>, \<open>str\<close> and \<open>bytes\<close>.
  Floating point is not modelled: a \<open>float\<close> is carried by the text \<open>repr\<close> prints for it.
  A row is a tuple of such values.
\<close>

datatype sqlval = SqlNull | SqlInt int | SqlReal pystr | SqlText pystr | SqlBlob "nat list"

type_synonym row = "sqlval list"

fun dec :: "nat \<Rightarrow> pystr" where
  "dec n = (if n < 10 then [48 + n] else dec (n div 10) @ [48 + n mod 10])"

declare dec.simps [simp del]

definition py_int :: "int \<Rightarrow> pystr" where
  "py_int i = (if i < 0 then 45 # dec (nat (- i)) else dec (nat i))"

fun hex_fixed :: "nat \<Rightarrow> nat \<Rightarrow> pystr" where
  "hex_fixed 0 n = []"
| "hex_fixed (Suc w) n =
     hex_fixed w (n div 16) @ [(if n mod 16 < 10 then 48 else 87) + n mod 16]"

text \<open>
  \<open>repr\<close> of a \<open>str\<close>: single quotes unless the text holds a single quote and no double
  quote; the quote and the backslash are escaped, tab, newline and carriage return are
  written \<open>\t\<close>, \<open>\n\<close>, \<open>\r\<close>, the other ASCII control characters \<open>\xhh\<close>. Beyond ASCII a
  printable code point is copied and any other is written \<open>\xhh\<close>, \<open>\uhhhh\<close> or
  \<open>\Uhhhhhhhh\<close>; which code points are printable is the Unicode database's matter and
  is the parameter \<open>pr\<close>.
\<close>

definition repr_quote :: "nat list \<Rightarrow> nat" where
  "repr_quote s = (if 39 \<in> set s \<and> 34 \<notin> set s then 34 else 39)"

definition repr_char :: "(nat \<Rightarrow> bool) \<Rightarrow> nat \<Rightarrow> nat \<Rightarrow> pystr" where
  "repr_char pr q c =
     (if c = q \<or> c = 92 then [92, c]
      else if c = 9 then [92, 116]
      else if c = 10 then [92, 110]
      else if c = 13 then [92, 114]
      else if c < 32 \<or> c = 127 then [92, 120] @ hex_fixed 2 c
      else if c < 127 then [c]
      else if pr c then [c]
      else if c \<le> 255 then [92, 120] @ hex_fixed 2 c
      else if c \<le> 65535 then [92, 117] @ hex_fixed 4 c
      else [92, 85] @ hex_fixed 8 c)"

definition py_repr_str :: "(nat \<Rightarrow> bool) \<Rightarrow> pystr \<Rightarrow> pystr" where
  "py_repr_str pr s =
     (let q = repr_quote s in [q] @ concat (map (repr_char pr q) s) @ [q])"

text \<open>\<open>repr\<close> of a \<open>bytes\<close> value: every byte outside printable ASCII is written \<open>\xhh\<close>.\<close>

definition repr_byte :: "nat \<Rightarrow> nat \<Rightarrow> pystr" where
  "repr_byte q c =
     (if c = q \<or> c = 92 then [92, c]
      else if c = 9 then [92, 116]
      else if c = 10 then [92, 110]
      else if c = 13 then [92, 114]
      else if c < 32 \<or> 127 \<le> c then [92, 120] @ hex_fixed 2 c
      else [c])"

definition py_repr_bytes :: "nat list \<Rightarrow> pystr" where
  "py_repr_bytes b =
     (let q = repr_quote b in [98, q] @ concat (map (repr_byte q) b) @ [q])"

fun py_repr :: "(nat \<Rightarrow> bool) \<Rightarrow> sqlval \<Rightarrow> pystr" where
  "py_repr pr SqlNull = ascii ''None''"
| "py_repr pr (SqlInt i) = py_int i"
| "py_repr pr (SqlReal t) = t"
| "py_repr pr (SqlText s) = py_repr_str pr s"
| "py_repr pr (SqlBlob b) = py_repr_bytes b"

text \<open>\<open>str(x)\<close>, which is also what an f-string field \<open>{x}\<close> prints: a text is itself.\<close>

fun py_str :: "(nat \<Rightarrow> bool) \<Rightarrow> sqlval \<Rightarrow> pystr" where
  "py_str pr (SqlText s) = s"
| "py_str pr v = py_repr pr v"

text \<open>\<open>str(row)\<close> of a tuple: the \<open>repr\<close> of its items; a 1-tuple ends in a comma.\<close>

fun py_str_row :: "(nat \<Rightarrow> bool) \<Rightarrow> row \<Rightarrow> pystr" where
  "py_str_row pr [x] = ascii ''('' @ py_repr pr x @ ascii '',)''"
| "py_str_row pr r = ascii ''('' @ join (ascii '', '') (map (py_repr pr) r) @ ascii '')''"

section \<open>The store\<close>

text \<open>
  SQLite is outside the program. A store says how \<open>sqlite3.connect("database.db")\<close> ends
  (\<open>None\<close>: a connection is returned) and what \<open>cursor.execute(sql)\<close> followed by
  \<open>cursor.fetchall()\<close> gives for a statement: the rows, or the exception raised.
  Closing a connection and logging do not raise and are left out.
\<close>

record store =
  connect :: "pyexc option"
  execute :: "pystr \<Rightarrow> pyexc + row list"

section \<open>The server: \<open>mcp_server.py\<close>\<close>

subsection \<open>The tool \<open>query_db\<close>\<close>

text \<open>
  The \<open>try\<close> block: whether \<open>conn\<close> got bound, and how the block ends (the exception
  raised, or the value returned).
\<close>

definition query_db_try :: "(nat \<Rightarrow> bool) \<Rightarrow> store \<Rightarrow> pystr \<Rightarrow> bool \<times> (pyexc + pystr)" where
  "query_db_try pr st sql =
     (case connect st of
        Some e \<Rightarrow> (False, Inl e)
      | None \<Rightarrow>
          (case execute st sql of
             Inl e \<Rightarrow> (True, Inl e)
           | Inr result \<Rightarrow> (True, Inr (join [10] (map (py_str_row pr) result)))))"

definition unbound_conn :: pystr where
  "unbound_conn =
     ascii ''cannot access local variable '' @ [39] @ ascii ''conn'' @ [39]
       @ ascii '' where it is not associated with a value''"

text \<open>
  \<open>except Exception as e\<close> turns an exception of the block into the returned text
  \<open>f"Error: {str(e)}"\<close>; \<open>finally: conn.close()\<close> then runs, and reads the local \<open>conn\<close>:
  where it was never bound that raises, and the exception replaces the return.
\<close>

definition query_db :: "(nat \<Rightarrow> bool) \<Rightarrow> store \<Rightarrow> pystr \<Rightarrow> pyexc + pystr" where
  "query_db pr st sql =
     (let (bound, r) = query_db_try pr st sql;
          r' = (case r of Inl e \<Rightarrow> Inr (ascii ''Error: '' @ exc_str e) | Inr s \<Rightarrow> Inr s)
      in if bound then r' else Inl (Raise UnboundLocalError unbound_conn))"

subsection \<open>The resource \<open>db://schema\<close>\<close>

text \<open>\<open>row[i]\<close> on a tuple raises \<open>IndexError\<close> out of range.\<close>

definition item :: "row \<Rightarrow> nat \<Rightarrow> pyexc + sqlval" where
  "item r i =
     (if i < length r then Inr (r ! i)
      else Inl (Raise IndexError (ascii ''tuple index out of range'')))"

text \<open>Sequencing: an exception ends the function, a value goes on to the next step.\<close>

definition and_then :: "pyexc + 'a \<Rightarrow> ('a \<Rightarrow> pyexc + 'b) \<Rightarrow> pyexc + 'b" where
  "and_then r f = (case r of Inl e \<Rightarrow> Inl e | Inr x \<Rightarrow> f x)"

text \<open>The inner loop, \<open>for col in columns: schema.append(f"  - {col[1]} ({col[2]})")\<close>.\<close>

fun schema_columns :: "(nat \<Rightarrow> bool) \<Rightarrow> row list \<Rightarrow> pyexc + pystr list" where
  "schema_columns pr [] = Inr []"
| "schema_columns pr (col # columns) =
     and_then (item col 1) (\<lambda>n.
     and_then (item col 2) (\<lambda>t.
     and_then (schema_columns pr columns) (\<lambda>rest.
       Inr ((ascii ''  - '' @ py_str pr n @ ascii '' ('' @ py_str pr t @ ascii '')'') # rest))))"

text \<open>
  The outer loop, \<open>for table in tables\<close>: the columns are fetched with
  \<open>f"PRAGMA table_info({table[0]})"\<close>, then the header \<open>f"\<dots> {table[0]}:"\<close> (the
  code point 34920, a space, the name, a colon) and the column lines are appended.
\<close>

fun schema_tables :: "(nat \<Rightarrow> bool) \<Rightarrow> store \<Rightarrow> row list \<Rightarrow> pyexc + pystr list" where
  "schema_tables pr st [] = Inr []"
| "schema_tables pr st (table # tables) =
     and_then (item table 0) (\<lambda>n.
     and_then (execute st (ascii ''PRAGMA table_info('' @ py_str pr n @ ascii '')'')) (\<lambda>columns.
     and_then (schema_columns pr columns) (\<lambda>lines.
     and_then (schema_tables pr st tables) (\<lambda>rest.
       Inr ((([34920] @ ascii '' '' @ py_str pr n @ ascii '':'') # lines) @ rest)))))"

definition get_schema :: "(nat \<Rightarrow> bool) \<Rightarrow> store \<Rightarrow> pyexc + pystr list" where
  "get_schema pr st =
     (case connect st of
        Some e \<Rightarrow> Inl e
      | None \<Rightarrow>
          and_then
            (execute st (ascii ''SELECT name FROM sqlite_master WHERE type='' @ [39]
               @ ascii ''table'' @ [39] @ ascii '';''))
            (schema_tables pr st))"

subsection \<open>The prompt template \<open>sql_prompt\<close>\<close>

definition sql_prompt :: "pystr \<Rightarrow> pystr" where
  "sql_prompt question =
     [35831, 23558, 20197, 19979, 38382, 39064, 36716, 25442, 20026] @ ascii ''SQL''
       @ [26597, 35810, 65306, 10, 38382, 39064] @ ascii '': ''
     @ question
     @ [10, 10, 21487, 29992, 30340, 34920, 32467, 26500] @ ascii '':'' @ [10]
       @ ascii ''- users(id, name, age, email)'' @ [10]
       @ ascii ''- orders(id, user_id, product_name, price, order_date)''
       @ [10, 10, 35831, 29983, 25104, 26631, 20934, 30340] @ ascii ''SQLite SQL''
       @ [35821, 21477, 65292, 19981, 35201, 29983, 25104, 20854, 20182, 20869, 23481,
          65292, 21482, 36820, 22238] @ ascii ''SQL'' @ [35821, 21477, 26412, 36523, 12290]"

section \<open>The fixture: \<open>create_database.py\<close>\<close>

text \<open>
  A database is its tables in creation order. A table has its declared columns and its
  rows; both tables of the script have an \<open>INTEGER PRIMARY KEY\<close> first column, so a row
  is stored under that key and the rows are kept in key order, the order in which
  \<open>SELECT *\<close> reads them.
\<close>

record column =
  col_name :: pystr
  col_type :: pystr
  col_notnull :: bool
  col_pk :: bool

record table =
  tab_name :: pystr
  tab_columns :: "column list"
  tab_rows :: "(int \<times> row) list"

type_synonym database = "table list"

text \<open>\<open>CREATE TABLE IF NOT EXISTS\<close>: nothing happens when the name is taken.\<close>

definition create_table_if_not_exists :: "pystr \<Rightarrow> column list \<Rightarrow> database \<Rightarrow> database" where
  "create_table_if_not_exists n cols db =
     (if n \<in> set (map tab_name db) then db
      else db @ [\<lparr>tab_name = n, tab_columns = cols, tab_rows = []\<rparr>])"

text \<open>\<open>INSERT OR REPLACE\<close> of a row with an integer key: a row under that key is replaced.\<close>

fun put_row :: "int \<Rightarrow> row \<Rightarrow> (int \<times> row) list \<Rightarrow> (int \<times> row) list" where
  "put_row k r [] = [(k, r)]"
| "put_row k r ((k', r') # rest) =
     (if k < k' then (k, r) # (k', r') # rest
      else if k = k' then (k, r) # rest
      else (k', r') # put_row k r rest)"

fun insert_or_replace :: "pystr \<Rightarrow> row \<Rightarrow> database \<Rightarrow> database" where
  "insert_or_replace n (SqlInt k # vs) db =
     map (\<lambda>t. if tab_name t = n then t\<lparr>tab_rows := put_row k (SqlInt k # vs) (tab_rows t)\<rparr> else t) db"
| "insert_or_replace n r db = db"

text \<open>\<open>cursor.executemany\<close>: the rows are inserted one after the other.\<close>

definition executemany :: "pystr \<Rightarrow> row list \<Rightarrow> database \<Rightarrow> database" where
  "executemany n rs db = foldl (\<lambda>d r. insert_or_replace n r d) db rs"

definition users_columns :: "column list" where
  "users_columns =
     [\<lparr>col_name = ascii ''id'', col_type = ascii ''INTEGER'', col_notnull = False, col_pk = True\<rparr>,
      \<lparr>col_name = ascii ''name'', col_type = ascii ''TEXT'', col_notnull = True, col_pk = False\<rparr>,
      \<lparr>col_name = ascii ''age'', col_type = ascii ''INTEGER'', col_notnull = False, col_pk = False\<rparr>,
      \<lparr>col_name = ascii ''email'', col_type = ascii ''TEXT'', col_notnull = False, col_pk = False\<rparr>]"

definition orders_columns :: "column list" where
  "orders_columns =
     [\<lparr>col_name = ascii ''id'', col_type = ascii ''INTEGER'', col_notnull = False, col_pk = True\<rparr>,
      \<lparr>col_name = ascii ''user_id'', col_type = ascii ''INTEGER'', col_notnull = False, col_pk = False\<rparr>,
      \<lparr>col_name = ascii ''product_name'', col_type = ascii ''TEXT'', col_notnull = True, col_pk = False\<rparr>,
      \<lparr>col_name = ascii ''price'', col_type = ascii ''REAL'', col_notnull = False, col_pk = False\<rparr>,
      \<lparr>col_name = ascii ''order_date'', col_type = ascii ''TEXT'', col_notnull = False, col_pk = False\<rparr>]"

definition users :: "row list" where
  "users =
     [[SqlInt 1, SqlText [24352, 19977], SqlInt 25, SqlText (ascii ''zhangsan@example.com'')],
      [SqlInt 2, SqlText [26446, 22235], SqlInt 30, SqlText (ascii ''lisi@example.com'')],
      [SqlInt 3, SqlText [29579, 20116], SqlInt 35, SqlText (ascii ''wangwu@example.com'')]]"

definition orders :: "row list" where
  "orders =
     [[SqlInt 1, SqlInt 1, SqlText [31508, 35760, 26412, 30005, 33041],
         SqlReal (ascii ''6999.99''), SqlText (ascii ''2025-04-01'')],
      [SqlInt 2, SqlInt 1, SqlText [25163, 26426],
         SqlReal (ascii ''4999.99''), SqlText (ascii ''2025-04-15'')],
      [SqlInt 3, SqlInt 2, SqlText [24179, 26495, 30005, 33041],
         SqlReal (ascii ''3999.99''), SqlText (ascii ''2025-04-20'')],
      [SqlInt 4, SqlInt 3, SqlText [32819, 26426],
         SqlReal (ascii ''999.99''), SqlText (ascii ''2025-05-01'')]]"

definition create_database :: "database \<Rightarrow> database" where
  "create_database db =
     executemany (ascii ''orders'') orders
       (executemany (ascii ''users'') users
         (create_table_if_not_exists (ascii ''orders'') orders_columns
           (create_table_if_not_exists (ascii ''users'') users_columns db)))"

text \<open>The fixture is the script run where no database file exists yet.\<close>

definition fixture :: database where
  "fixture = create_database []"

subsection \<open>What SQLite answers on a database\<close>

text \<open>
  The three statement forms the server and the properties below issue are answered
  from the database: the catalog query, \<open>PRAGMA table_info\<close> of a table (one row
  \<open>(cid, name, type, notnull, dflt_value, pk)\<close> per column) and \<open>SELECT * FROM\<close> a
  table. Any other statement is left to \<open>other\<close>.
\<close>

fun table_info :: "nat \<Rightarrow> column list \<Rightarrow> row list" where
  "table_info cid [] = []"
| "table_info cid (c # cs) =
     [SqlInt (int cid), SqlText (col_name c), SqlText (col_type c),
      SqlInt (if col_notnull c then 1 else 0), SqlNull, SqlInt (if col_pk c then 1 else 0)]
     # table_info (Suc cid) cs"

definition sqlite_execute ::
  "(pystr \<Rightarrow> pyexc + row list) \<Rightarrow> database \<Rightarrow> pystr \<Rightarrow> pyexc + row list" where
  "sqlite_execute other db sql =
     (if sql = ascii ''SELECT name FROM sqlite_master WHERE type='' @ [39]
                 @ ascii ''table'' @ [39] @ ascii '';''
      then Inr (map (\<lambda>t. [SqlText (tab_name t)]) db)
      else case find (\<lambda>t. sql = ascii ''PRAGMA table_info('' @ tab_name t @ ascii '')'') db of
        Some t \<Rightarrow> Inr (table_info 0 (tab_columns t))
      | None \<Rightarrow>
          (case find (\<lambda>t. sql = ascii ''SELECT * FROM '' @ tab_name t) db of
             Some t \<Rightarrow> Inr (map snd (tab_rows t))
           | None \<Rightarrow> other sql))"

definition sqlite_store :: "(pystr \<Rightarrow> pyexc + row list) \<Rightarrow> database \<Rightarrow> store" where
  "sqlite_store other db = \<lparr>connect = None, execute = sqlite_execute other db\<rparr>"

text \<open>What SQLite says to a statement it cannot parse, here to \<open>SELEKT\<close>.\<close>

definition syntax_error :: "pystr \<Rightarrow> pyexc + row list" where
  "syntax_error sql =
     Inl (Raise OperationalError (ascii ''near '' @ [34] @ sql @ [34] @ ascii '': syntax error''))"

text \<open>A store whose database file cannot be opened: \<open>sqlite3.connect\<close> raises.\<close>

definition unopened :: "store \<Rightarrow> store" where
  "unopened st =
     st\<lparr>connect := Some (Raise OperationalError (ascii ''unable to open database file''))\<rparr>"

text \<open>
  A store after \<open>CREATE TABLE "my table" (x)\<close>: the catalog lists the new name after the
  others, and \<open>PRAGMA table_info(my table)\<close>, the name not quoted, does not parse.
\<close>

definition with_spaced_table :: "store \<Rightarrow> store" where
  "with_spaced_table st =
     st\<lparr>execute :=
          (\<lambda>sql.
             if sql = ascii ''SELECT name FROM sqlite_master WHERE type='' @ [39]
                        @ ascii ''table'' @ [39] @ ascii '';''
             then (case execute st sql of
                     Inl e \<Rightarrow> Inl e
                   | Inr rows \<Rightarrow> Inr (rows @ [[SqlText (ascii ''my table'')]]))
             else if sql = ascii ''PRAGMA table_info(my table)''
             then Inl (Raise OperationalError
                        (ascii ''near '' @ [34] @ ascii ''table'' @ [34] @ ascii '': syntax error''))
             else execute st sql)\<rparr>"

section \<open>The client: \<open>mcp_client.py\<close>\<close>

text \<open>
  JSON values: the arguments of a call (\<open>dict[str, Any]\<close>) and what \<open>json.loads\<close> returns.
  A \<open>dict\<close> is a list of pairs in insertion order with distinct keys.
\<close>

datatype json =
  JNull | JBool bool | JNum int | JStr pystr | JArr "json list" | JObj "(pystr \<times> json) list"

type_synonym arguments = "(pystr \<times> json) list"

text \<open>The dataclasses \<open>ToolParameter\<close>, \<open>ToolDef\<close> and \<open>ToolInvocationResult\<close>.\<close>

record ToolParameter =
  tp_name :: pystr
  tp_parameter_type :: pystr
  tp_description :: pystr
  tp_required :: bool
  tp_default :: "json option"

record ToolDef =
  td_name :: pystr
  td_description :: "pystr option"
  td_parameters :: "ToolParameter list"
  td_metadata :: "(pystr \<times> pystr) list"
  td_identifier :: pystr

record ToolInvocationResult =
  content :: pystr
  error_code :: int

text \<open>
  What the MCP library hands to the client. A tool of the server has a name, a
  description and an \<open>inputSchema\<close> dictionary, read with \<open>.get\<close>: a key may be missing.
  The result of a tool call has its content items and the flag \<open>isError\<close>; the client
  only passes items on, so their type \<open>'o\<close> is left open. A prompt result is its
  messages, each the \<open>content.text\<close> of the message where the content is a text.
\<close>

record param_schema =
  ps_type :: "pystr option"
  ps_description :: "pystr option"
  ps_default :: "json option"

record mcp_tool =
  tool_name :: pystr
  tool_description :: "pystr option"
  schema_required :: "pystr list option"
  schema_properties :: "(pystr \<times> param_schema) list option"

record 'o CallToolResult =
  result_content :: "'o list"
  isError :: bool

type_synonym prompt_result = "pystr option list"

text \<open>
  The server and the transport are outside the program: a \<open>peer\<close> says how entering the
  SSE streams, entering the \<open>ClientSession\<close> and each request on the session end. Releasing
  the exit stack does not raise.
\<close>

record 'o peer =
  enter_sse_client :: "pyexc option"
  enter_client_session :: "pyexc option"
  session_initialize :: "pyexc option"
  session_list_tools :: "pyexc + mcp_tool list"
  session_call_tool :: "pystr \<Rightarrow> arguments \<Rightarrow> pyexc + 'o CallToolResult"
  session_get_prompt :: "pystr \<Rightarrow> arguments \<Rightarrow> pyexc + prompt_result"
  session_read_resource :: "pystr \<Rightarrow> pyexc + 'o list"

text \<open>
  The client object: its URL, \<open>self.session\<close>, the contexts its exit stack holds, and
  the requests it has issued on the session so far.
\<close>

datatype ClientSession = ClientSession

datatype entered = SseStreams | SessionContext

datatype request =
    Initialize
  | ListTools
  | CallTool pystr arguments
  | GetPrompt pystr arguments
  | ReadResource pystr

record client =
  url :: pystr
  session :: "ClientSession option"
  exit_stack :: "entered list"
  issued :: "request list"

definition MCP_Client :: "pystr \<Rightarrow> int \<Rightarrow> client" where
  "MCP_Client host port =
     \<lparr>url = ascii ''http://'' @ host @ ascii '':'' @ py_int port @ ascii ''/sse'',
      session = None, exit_stack = [], issued = []\<rparr>"

text \<open>
  The \<open>try\<close> block of \<open>connect\<close>: the streams, the session, the handshake, and the
  listing of the tools that verifies the connection. It ends with the exception raised,
  if any, and the client as it stands then.
\<close>

definition connect_try :: "'o peer \<Rightarrow> client \<Rightarrow> pyexc option \<times> client" where
  "connect_try p c =
     (case enter_sse_client p of
        Some e \<Rightarrow> (Some e, c)
      | None \<Rightarrow>
          (let c1 = c\<lparr>exit_stack := SseStreams # exit_stack c\<rparr> in
           case enter_client_session p of
             Some e \<Rightarrow> (Some e, c1)
           | None \<Rightarrow>
               (let c2 = c1\<lparr>exit_stack := SessionContext # exit_stack c1,
                              session := Some ClientSession\<rparr>;
                    c3 = c2\<lparr>issued := issued c2 @ [Initialize]\<rparr> in
                case session_initialize p of
                  Some e \<Rightarrow> (Some e, c3)
                | None \<Rightarrow>
                    (let c4 = c3\<lparr>issued := issued c3 @ [ListTools]\<rparr> in
                     case session_list_tools p of
                       Inl e \<Rightarrow> (Some e, c4)
                     | Inr tools \<Rightarrow> (None, c4)))))"

text \<open>\<open>disconnect\<close>: \<open>exit_stack.aclose()\<close> releases every entered context, then \<open>session = None\<close>.\<close>

definition disconnect :: "client \<Rightarrow> client" where
  "disconnect c = c\<lparr>exit_stack := [], session := None\<rparr>"

text \<open>
  \<open>except Exception as e\<close>: disconnect, then raise
  \<open>ConnectionError(f"Failed to connect to MCP server: {str(e)}")\<close>.
\<close>

definition connect_client :: "'o peer \<Rightarrow> client \<Rightarrow> pyexc option \<times> client" where
  "connect_client p c =
     (case connect_try p c of
        (None, c') \<Rightarrow> (None, c')
      | (Some e, c') \<Rightarrow>
          (Some (Raise ConnectionError (ascii ''Failed to connect to MCP server: '' @ exc_str e)),
           disconnect c'))"

definition not_connected :: pyexc where
  "not_connected = Raise ConnectionError (ascii ''Not connected to MCP server'')"

text \<open>\<open>d.get(key, default)\<close> on a key that may be missing.\<close>

definition get_or :: "'a option \<Rightarrow> 'a \<Rightarrow> 'a" where
  "get_or v d = (case v of None \<Rightarrow> d | Some x \<Rightarrow> x)"

definition tool_parameters :: "mcp_tool \<Rightarrow> ToolParameter list" where
  "tool_parameters tool =
     (let required_params = get_or (schema_required tool) [] in
      map (\<lambda>(param_name, param_schema).
             \<lparr>tp_name = param_name,
              tp_parameter_type = get_or (ps_type param_schema) (ascii ''string''),
              tp_description = get_or (ps_description param_schema) [],
              tp_required = (param_name \<in> set required_params),
              tp_default = ps_default param_schema\<rparr>)
          (get_or (schema_properties tool) []))"

definition list_tools :: "'o peer \<Rightarrow> client \<Rightarrow> (pyexc + ToolDef list) \<times> client" where
  "list_tools p c =
     (if session c = None then (Inl not_connected, c)
      else
        (let c' = c\<lparr>issued := issued c @ [ListTools]\<rparr> in
         case session_list_tools p of
           Inl e \<Rightarrow> (Inl e, c')
         | Inr tools_result \<Rightarrow>
             (Inr (map (\<lambda>tool.
                     \<lparr>td_name = tool_name tool,
                      td_description = tool_description tool,
                      td_parameters = tool_parameters tool,
                      td_metadata = [(ascii ''endpoint'', url c)],
                      td_identifier = tool_name tool\<rparr>) tools_result), c')))"

text \<open>
  \<open>call_tool\<close>: \<open>arguments or {}\<close> is sent as it is; the content of the result is each
  item's \<open>model_dump_json()\<close> joined by newlines, the error code follows \<open>isError\<close>. The
  serialisation of an item is pydantic's and is the parameter \<open>dump\<close>.
\<close>

definition call_tool ::
  "'o peer \<Rightarrow> ('o \<Rightarrow> pystr) \<Rightarrow> client \<Rightarrow> pystr \<Rightarrow> arguments option
     \<Rightarrow> (pyexc + ToolInvocationResult) \<times> client" where
  "call_tool p dump c name arguments =
     (if session c = None then (Inl not_connected, c)
      else
        (let args = get_or arguments [];
             c' = c\<lparr>issued := issued c @ [CallTool name args]\<rparr> in
         case session_call_tool p name args of
           Inl e \<Rightarrow> (Inl e, c')
         | Inr result \<Rightarrow>
             (Inr \<lparr>content = join [10] (map dump (result_content result)),
                   error_code = (if isError result then 1 else 0)\<rparr>, c')))"

definition get_prompt ::
  "'o peer \<Rightarrow> client \<Rightarrow> pystr \<Rightarrow> arguments \<Rightarrow> (pyexc + prompt_result) \<times> client" where
  "get_prompt p c name kwargs =
     (if session c = None then (Inl not_connected, c)
      else (session_get_prompt p name kwargs, c\<lparr>issued := issued c @ [GetPrompt name kwargs]\<rparr>))"

text \<open>
  \<open>get_resource\<close> is a generator; the model is what iterating it to its end gives: the
  exception raised, or the items yielded.
\<close>

definition get_resource :: "'o peer \<Rightarrow> client \<Rightarrow> pystr \<Rightarrow> (pyexc + 'o list) \<times> client" where
  "get_resource p c uri =
     (if session c = None then (Inl not_connected, c)
      else (session_read_resource p uri, c\<lparr>issued := issued c @ [ReadResource uri]\<rparr>))"

subsection \<open>An example peer\<close>

text \<open>
  A peer for the instances below: the three steps of opening a session end as given;
  the server lists the tool \<open>query_db\<close> with its required text parameter \<open>sql\<close>,
  answers a call with two content items (flagged as an error for any other tool name),
  renders a prompt and has no resource items. Content items are texts here.
\<close>

definition example_peer :: "pyexc option \<Rightarrow> pyexc option \<Rightarrow> pyexc option \<Rightarrow> pystr peer" where
  "example_peer streams sess init =
     \<lparr>enter_sse_client = streams,
      enter_client_session = sess,
      session_initialize = init,
      session_list_tools =
        Inr [\<lparr>tool_name = ascii ''query_db'',
              tool_description = Some ([25191, 34892] @ ascii ''SQL'' @ [26597, 35810]),
              schema_required = Some [ascii ''sql''],
              schema_properties =
                Some [(ascii ''sql'', \<lparr>ps_type = Some (ascii ''string''), ps_description = None,
                                        ps_default = None\<rparr>)]\<rparr>],
      session_call_tool =
        (\<lambda>name args. Inr \<lparr>result_content = [ascii ''(1,)'', ascii ''(2,)''],
                            isError = (name \<noteq> ascii ''query_db'')\<rparr>),
      session_get_prompt = (\<lambda>name args. Inr [Some (sql_prompt (ascii ''how many users''))]),
      session_read_resource = (\<lambda>uri. Inr [])\<rparr>"

definition refused :: pyexc where
  "refused = Raise OtherException (ascii ''All connection attempts failed'')"

section \<open>The host: \<open>mcp_host.py\<close>\<close>

text \<open>
  The tools in the format of the chat service. The constant entries of each dictionary
  (\<open>"type": "function"\<close>, \<open>"type": "object"\<close>) are left out; \<open>properties\<close> maps a
  parameter name to its type and description.
\<close>

record openai_tool =
  fn_name :: pystr
  fn_description :: "pystr option"
  fn_properties :: "(pystr \<times> pystr \<times> pystr) list"
  fn_required :: "pystr list"




text \<open>
  The chat service is outside the program. A request has its messages (role and content)
  and, for the translation, the tools and the function the reply is forced to call; the
  model name is the same in both requests and is left out. A response is its choices,
  each with the content of its message and, when the message calls tools, the argument
  text of each call.
\<close>

record chat_request =
  req_messages :: "(pystr \<times> pystr) list"
  req_tools :: "openai_tool list option"
  req_tool_choice :: "pystr option"

record choice =
  message_content :: "pystr option"
  tool_calls :: "pystr list option"

type_synonym chat_response = "choice list"

text \<open>
  Everything outside the host: the server behind the client, which code points print
  (for \<open>repr\<close>), pydantic's serialisation of a content item, \<open>json.loads\<close>, and the chat
  service.
\<close>

record 'o world =
  server :: "'o peer"
  printable :: "nat \<Rightarrow> bool"
  model_dump_json :: "'o \<Rightarrow> pystr"
  json_loads :: "pystr \<Rightarrow> pyexc + json"
  chat_create :: "chat_request \<Rightarrow> pyexc + chat_response"














subsection \<open>Example worlds\<close>









text \<open>
  A row value prints on one line: \<open>repr\<close> escapes every newline of a text, so only the
  text that stands for a \<open>float\<close> has to be free of newlines.
\<close>

fun one_line_real :: "sqlval \<Rightarrow> bool" where
  "one_line_real (SqlReal t) = (10 \<notin> set t)"
| "one_line_real v = True"

text \<open>
  The line the schema resource is said to give for a column row of \<open>PRAGMA table_info\<close>:
  two spaces, a dash, the column name, and the declared type in parentheses.
\<close>

definition schema_line :: "(nat \<Rightarrow> bool) \<Rightarrow> row \<Rightarrow> pystr" where
  "schema_line pr col =
     ascii ''  - '' @ py_str pr (col ! 1) @ ascii '' ('' @ py_str pr (col ! 2) @ ascii '')''"

section \<open>Properties of \<open>query_db\<close>\<close>

subsection \<open>Printed rows hold no newline\<close>

lemma split_nl_plain: "10 \<notin> set s \<Longrightarrow> split_nl s = [s]"
  by (induction s) auto

lemma split_nl_cut: "10 \<notin> set s \<Longrightarrow> split_nl (s @ 10 # t) = s # split_nl t"
  by (induction s) auto

lemma split_nl_join:
  "xs \<noteq> [] \<Longrightarrow> \<forall>x\<in>set xs. 10 \<notin> set x \<Longrightarrow> split_nl (join [10] xs) = xs"
proof (induction "[10::nat]" xs rule: join.induct)
  case 1
  then show ?case by simp
next
  case (2 x)
  then show ?case by (simp add: split_nl_plain)
next
  case (3 x y ys)
  then show ?case by (simp add: split_nl_cut)
qed

lemma fixture_eq:
  "fixture =
     [\<lparr>tab_name = ascii ''users'', tab_columns = users_columns,
       tab_rows = [(1, users ! 0), (2, users ! 1), (3, users ! 2)]\<rparr>,
      \<lparr>tab_name = ascii ''orders'', tab_columns = orders_columns,
       tab_rows = [(1, orders ! 0), (2, orders ! 1), (3, orders ! 2), (4, orders ! 3)]\<rparr>]"
  by (simp add: fixture_def create_database_def create_table_if_not_exists_def executemany_def
      users_def orders_def ascii_def)

lemma fixture_select_users:
  "execute (sqlite_store other fixture) (ascii ''SELECT * FROM users'') = Inr users"
  by (simp add: fixture_eq sqlite_store_def sqlite_execute_def)
     (simp add: ascii_def users_def)


lemma dec_no_nl: "10 \<notin> set (dec n)"
proof (induction n rule: dec.induct)
  case (1 n)
  show ?case
  proof (cases "n < 10")
    case True
    then show ?thesis by (subst dec.simps) simp
  next
    case False
    with 1 show ?thesis by (subst dec.simps) simp
  qed
qed

lemma hex_fixed_no_nl: "10 \<notin> set (hex_fixed w n)"
  by (induction w arbitrary: n) auto

lemma repr_char_no_nl: "q \<noteq> 10 \<Longrightarrow> 10 \<notin> set (repr_char pr q c)"
  by (simp add: repr_char_def hex_fixed_no_nl)

lemma repr_byte_no_nl: "q \<noteq> 10 \<Longrightarrow> 10 \<notin> set (repr_byte q c)"
  by (simp add: repr_byte_def hex_fixed_no_nl)

lemma repr_quote_no_nl: "repr_quote s \<noteq> 10"
  by (simp add: repr_quote_def)

lemma py_repr_str_no_nl: "10 \<notin> set (py_repr_str pr s)"
  by (simp add: py_repr_str_def Let_def repr_quote_no_nl repr_char_no_nl)

lemma py_repr_bytes_no_nl: "10 \<notin> set (py_repr_bytes b)"
  by (simp add: py_repr_bytes_def Let_def repr_quote_no_nl repr_byte_no_nl)

lemma py_repr_no_nl: "one_line_real v \<Longrightarrow> 10 \<notin> set (py_repr pr v)"
  by (cases v) (simp_all add: py_int_def dec_no_nl py_repr_str_no_nl py_repr_bytes_no_nl ascii_def)

lemma join_no_nl: "10 \<notin> set sep \<Longrightarrow> \<forall>x\<in>set xs. 10 \<notin> set x \<Longrightarrow> 10 \<notin> set (join sep xs)"
  by (induction sep xs rule: join.induct) auto

lemma py_str_row_no_nl:
  assumes "\<forall>v\<in>set r. one_line_real v"
  shows "10 \<notin> set (py_str_row pr r)"
proof -
  have j: "10 \<notin> set (join (ascii '', '') (map (py_repr pr) r))"
    using assms by (intro join_no_nl) (auto simp: ascii_def py_repr_no_nl)
  show ?thesis
  proof (cases r)
    case Nil
    then show ?thesis by (simp add: ascii_def)
  next
    case (Cons x xs)
    show ?thesis
    proof (cases xs)
      case Nil
      with Cons assms show ?thesis by (simp add: ascii_def py_repr_no_nl)
    next
      case (Cons y ys)
      with \<open>r = x # xs\<close> j show ?thesis by (simp add: ascii_def)
    qed
  qed
qed

subsection \<open>The claims on \<open>query_db\<close>\<close>

text \<open>
  Where the database opens and the statement raises, the handler returns the marker
  \<open>Error: \<close> followed by the message of the exception; so for \<open>SELEKT\<close> on the fixture.
\<close>

lemma query_db_execute_error:
  assumes "connect st = None" and "execute st sql = Inl e"
  shows "query_db pr st sql = Inr (ascii ''Error: '' @ exc_str e)
         \<and> (\<exists>t. query_db pr st sql = Inr t \<and> prefix (ascii ''Error: '') t \<and> suffix (exc_str e) t)"
  using assms by (simp add: query_db_def query_db_try_def suffix_def)

lemma query_db_selekt:
  "query_db pr (sqlite_store syntax_error fixture) (ascii ''SELEKT'')
     = Inr (ascii ''Error: near '' @ [34] @ ascii ''SELEKT'' @ [34] @ ascii '': syntax error'')"
proof -
  have c: "connect (sqlite_store syntax_error fixture) = None"
    by (simp add: sqlite_store_def)
  have x: "execute (sqlite_store syntax_error fixture) (ascii ''SELEKT'')
             = Inl (Raise OperationalError
                 (ascii ''near '' @ [34] @ ascii ''SELEKT'' @ [34] @ ascii '': syntax error''))"
    by (simp add: sqlite_store_def sqlite_execute_def syntax_error_def fixture_def
        create_database_def create_table_if_not_exists_def executemany_def users_def orders_def
        ascii_def)
  show ?thesis
    using query_db_execute_error [OF c x, of pr] by (simp add: ascii_def)
qed

text \<open>
  Where the database cannot be opened, \<open>conn\<close> is never bound: the handler's \<open>return\<close> is
  replaced by the \<open>UnboundLocalError\<close> that \<open>conn.close()\<close> raises in the \<open>finally\<close> clause.
\<close>

lemma query_db_unopened:
  "connect st = Some e \<Longrightarrow> query_db pr st sql = Inl (Raise UnboundLocalError unbound_conn)"
  by (simp add: query_db_def query_db_try_def)

text \<open>
  C1. For every SQL text whose execution against the store raises an exception,
  \<open>query_db\<close> is to return a text that starts with the marker \<open>Error: \<close> and carries the
  message of the exception. The code does not where it is \<open>sqlite3.connect\<close>, inside the
  same \<open>try\<close> block, that raises: on the fixture with a database file that cannot be
  opened, \<open>query_db\<close> raises \<open>UnboundLocalError\<close> and returns no text, neither the
  error text of the exception nor any other.
\<close>

theorem query_db_unopened_raises:
  "query_db (\<lambda>c. True) (unopened (sqlite_store syntax_error fixture)) (ascii ''SELECT * FROM users'')
     = Inl (Raise UnboundLocalError unbound_conn)
   \<and> connect (unopened (sqlite_store syntax_error fixture))
       = Some (Raise OperationalError (ascii ''unable to open database file''))
   \<and> query_db (\<lambda>c. True) (unopened (sqlite_store syntax_error fixture)) (ascii ''SELECT * FROM users'')
       \<noteq> Inr (ascii ''Error: unable to open database file'')"
  by (simp add: query_db_def query_db_try_def unopened_def)

text \<open>
  C2. For every SQL query that executes, \<open>query_db\<close> returns the fetched rows, each
  printed by \<open>str\<close>, joined by newlines, and the lines of that text are the printed
  rows. On the fixture store \<open>SELECT * FROM users\<close> returns a text of exactly 3 lines, the
  three user rows.
\<close>

theorem query_db_rows:
  "(connect st = None \<and> execute st sql = Inr rows
      \<longrightarrow> query_db pr st sql = Inr (join [10] (map (py_str_row pr) rows)))
   \<and> (rows \<noteq> [] \<and> (\<forall>r\<in>set rows. \<forall>v\<in>set r. one_line_real v)
      \<longrightarrow> split_nl (join [10] (map (py_str_row pr) rows)) = map (py_str_row pr) rows)
   \<and> (\<exists>c. query_db pr (sqlite_store other fixture) (ascii ''SELECT * FROM users'') = Inr c
          \<and> split_nl c = map (py_str_row pr) users \<and> length (split_nl c) = 3)"
proof (intro conjI impI)
  assume "connect st = None \<and> execute st sql = Inr rows"
  then show "query_db pr st sql = Inr (join [10] (map (py_str_row pr) rows))"
    by (simp add: query_db_def query_db_try_def)
next
  assume "rows \<noteq> [] \<and> (\<forall>r\<in>set rows. \<forall>v\<in>set r. one_line_real v)"
  then show "split_nl (join [10] (map (py_str_row pr) rows)) = map (py_str_row pr) rows"
    by (intro split_nl_join) (auto simp: py_str_row_no_nl)
next
  have u: "\<forall>r\<in>set users. \<forall>v\<in>set r. one_line_real v"
    by (simp add: users_def)
  have l: "split_nl (join [10] (map (py_str_row pr) users)) = map (py_str_row pr) users"
  proof (rule split_nl_join)
    show "map (py_str_row pr) users \<noteq> []" by (simp add: users_def)
    show "\<forall>x\<in>set (map (py_str_row pr) users). 10 \<notin> set x"
      using u by (auto simp: py_str_row_no_nl)
  qed
  have q: "query_db pr (sqlite_store other fixture) (ascii ''SELECT * FROM users'')
             = Inr (join [10] (map (py_str_row pr) users))"
    using fixture_select_users [of other]
    by (simp add: query_db_def query_db_try_def sqlite_store_def)
  show "\<exists>c. query_db pr (sqlite_store other fixture) (ascii ''SELECT * FROM users'') = Inr c
          \<and> split_nl c = map (py_str_row pr) users \<and> length (split_nl c) = 3"
    using q l by (simp add: users_def)
qed


theorem query_db_rows_witness:
  "query_db (\<lambda>c. True) (sqlite_store syntax_error fixture) (ascii ''SELECT * FROM users'')
     = Inr (ascii ''(1, '' @ [39, 24352, 19977, 39] @ ascii '', 25, '' @ [39]
              @ ascii ''zhangsan@example.com'' @ [39] @ ascii '')'' @ [10]
            @ ascii ''(2, '' @ [39, 26446, 22235, 39] @ ascii '', 30, '' @ [39]
              @ ascii ''lisi@example.com'' @ [39] @ ascii '')'' @ [10]
            @ ascii ''(3, '' @ [39, 29579, 20116, 39] @ ascii '', 35, '' @ [39]
              @ ascii ''wangwu@example.com'' @ [39] @ ascii '')'')
   \<and> length (split_nl (join [10] (map (py_str_row (\<lambda>c. True)) users))) = 3"
proof -
  have c: "connect (sqlite_store syntax_error fixture) = None"
    by (simp add: sqlite_store_def)
  have x: "execute (sqlite_store syntax_error fixture) (ascii ''SELECT * FROM users'') = Inr users"
    by (rule fixture_select_users)
  have u: "users \<noteq> [] \<and> (\<forall>r\<in>set users. \<forall>v\<in>set r. one_line_real v)"
    by (simp add: users_def)
  have d: "dec (Suc 0) = [49]" "dec 2 = [50]" "dec 3 = [51]" "dec 25 = [50, 53]" "dec 30 = [51, 48]"
    "dec 35 = [51, 53]"
    by (simp_all add: dec.simps [of "Suc 0"] dec.simps [of "numeral n" for n])
  have t: "join [10] (map (py_str_row (\<lambda>c. True)) users)
     = ascii ''(1, '' @ [39, 24352, 19977, 39] @ ascii '', 25, '' @ [39]
              @ ascii ''zhangsan@example.com'' @ [39] @ ascii '')'' @ [10]
            @ ascii ''(2, '' @ [39, 26446, 22235, 39] @ ascii '', 30, '' @ [39]
              @ ascii ''lisi@example.com'' @ [39] @ ascii '')'' @ [10]
            @ ascii ''(3, '' @ [39, 29579, 20116, 39] @ ascii '', 35, '' @ [39]
              @ ascii ''wangwu@example.com'' @ [39] @ ascii '')''"
    by (simp add: users_def py_int_def d py_repr_str_def repr_quote_def repr_char_def ascii_def)
  from query_db_rows [where st = "sqlite_store syntax_error fixture"
      and sql = "ascii ''SELECT * FROM users''" and rows = users and pr = "\<lambda>c. True"
      and other = syntax_error] c x u
  have "query_db (\<lambda>c. True) (sqlite_store syntax_error fixture) (ascii ''SELECT * FROM users'')
          = Inr (join [10] (map (py_str_row (\<lambda>c. True)) users))"
    and "split_nl (join [10] (map (py_str_row (\<lambda>c. True)) users))
          = map (py_str_row (\<lambda>c. True)) users"
    by simp_all
  then show ?thesis using t by (simp add: users_def)
qed

section \<open>Properties of \<open>sql_prompt\<close>\<close>

lemma sublist_after: "sublist xs ys \<Longrightarrow> sublist xs (zs @ ys)"
  by (metis append_assoc sublist_def)

lemma sublist_here: "sublist xs (xs @ ys)"
  by simp

text \<open>
  C3. The template \<open>sql_prompt\<close> is a function of its argument alone: the rendered text
  is one fixed text before the question and one fixed text after it, with the question
  \<open>X\<close> between them verbatim; it holds the schemas \<open>users(id, name, age, email)\<close> and
  \<open>orders(id, user_id, product_name, price, order_date)\<close>; equal questions give equal
  texts, and only equal questions do. A rendering returns its text and touches no state.
\<close>

theorem sql_prompt_embeds:
  "sublist X (sql_prompt X)
   \<and> sublist (ascii ''users(id, name, age, email)'') (sql_prompt X)
   \<and> sublist (ascii ''orders(id, user_id, product_name, price, order_date)'') (sql_prompt X)
   \<and> (\<exists>pre post. \<forall>Y. sql_prompt Y = pre @ Y @ post)
   \<and> (sql_prompt X = sql_prompt Y) = (X = Y)"
proof (intro conjI)
  show "sublist X (sql_prompt X)"
    unfolding sql_prompt_def by (intro sublist_after sublist_here)
  show "sublist (ascii ''users(id, name, age, email)'') (sql_prompt X)"
    unfolding sql_prompt_def sublist_def
    by (rule exI [of _ "[35831, 23558, 20197, 19979, 38382, 39064, 36716, 25442, 20026] @ ascii ''SQL''
          @ [26597, 35810, 65306, 10, 38382, 39064] @ ascii '': '' @ X
          @ [10, 10, 21487, 29992, 30340, 34920, 32467, 26500] @ ascii '':'' @ [10] @ ascii ''- ''"],
        rule exI [of _ "[10] @ ascii ''- orders(id, user_id, product_name, price, order_date)''
          @ [10, 10, 35831, 29983, 25104, 26631, 20934, 30340] @ ascii ''SQLite SQL''
          @ [35821, 21477, 65292, 19981, 35201, 29983, 25104, 20854, 20182, 20869, 23481,
             65292, 21482, 36820, 22238] @ ascii ''SQL'' @ [35821, 21477, 26412, 36523, 12290]"])
       (simp add: ascii_def)
  show "sublist (ascii ''orders(id, user_id, product_name, price, order_date)'') (sql_prompt X)"
    unfolding sql_prompt_def sublist_def
    by (rule exI [of _ "[35831, 23558, 20197, 19979, 38382, 39064, 36716, 25442, 20026] @ ascii ''SQL''
          @ [26597, 35810, 65306, 10, 38382, 39064] @ ascii '': '' @ X
          @ [10, 10, 21487, 29992, 30340, 34920, 32467, 26500] @ ascii '':'' @ [10]
          @ ascii ''- users(id, name, age, email)'' @ [10] @ ascii ''- ''"],
        rule exI [of _ "[10, 10, 35831, 29983, 25104, 26631, 20934, 30340] @ ascii ''SQLite SQL''
          @ [35821, 21477, 65292, 19981, 35201, 29983, 25104, 20854, 20182, 20869, 23481,
             65292, 21482, 36820, 22238] @ ascii ''SQL'' @ [35821, 21477, 26412, 36523, 12290]"])
       (simp add: ascii_def)
  show "\<exists>pre post. \<forall>Y. sql_prompt Y = pre @ Y @ post"
    unfolding sql_prompt_def
    by (rule exI [of _ "[35831, 23558, 20197, 19979, 38382, 39064, 36716, 25442, 20026] @ ascii ''SQL''
          @ [26597, 35810, 65306, 10, 38382, 39064] @ ascii '': ''"],
        rule exI [of _ "[10, 10, 21487, 29992, 30340, 34920, 32467, 26500] @ ascii '':'' @ [10]
          @ ascii ''- users(id, name, age, email)'' @ [10]
          @ ascii ''- orders(id, user_id, product_name, price, order_date)''
          @ [10, 10, 35831, 29983, 25104, 26631, 20934, 30340] @ ascii ''SQLite SQL''
          @ [35821, 21477, 65292, 19981, 35201, 29983, 25104, 20854, 20182, 20869, 23481,
             65292, 21482, 36820, 22238] @ ascii ''SQL'' @ [35821, 21477, 26412, 36523, 12290]"])
       simp
  show "(sql_prompt X = sql_prompt Y) = (X = Y)"
    unfolding sql_prompt_def by (simp only: append_assoc same_append_eq append_same_eq)
qed

section \<open>Properties of \<open>get_schema\<close>\<close>

lemma schema_columns_lines:
  "\<forall>col\<in>set columns. 3 \<le> length col \<Longrightarrow>
     schema_columns pr columns = Inr (map (schema_line pr) columns)"
  by (induction columns) (auto simp: and_then_def item_def schema_line_def)

lemma schema_tables_lines:
  "\<forall>n\<in>set names. execute st (ascii ''PRAGMA table_info('' @ n @ ascii '')'') = Inr (cols n)
       \<and> (\<forall>col\<in>set (cols n). 3 \<le> length col) \<Longrightarrow>
   schema_tables pr st (map (\<lambda>n. [SqlText n]) names)
     = Inr (concat (map (\<lambda>n. ([34920] @ ascii '' '' @ n @ ascii '':'')
                                # map (schema_line pr) (cols n)) names))"
  by (induction names) (auto simp: and_then_def item_def schema_columns_lines)

lemma fixture_catalog:
  "execute (sqlite_store other fixture)
     (ascii ''SELECT name FROM sqlite_master WHERE type='' @ [39] @ ascii ''table'' @ [39] @ ascii '';'')
   = Inr [[SqlText (ascii ''users'')], [SqlText (ascii ''orders'')]]"
  by (simp add: fixture_eq sqlite_store_def sqlite_execute_def)

lemma fixture_users_info:
  "execute (sqlite_store other fixture) (ascii ''PRAGMA table_info('' @ ascii ''users'' @ ascii '')'')
     = Inr (table_info 0 users_columns)"
  by (simp add: fixture_eq sqlite_store_def sqlite_execute_def) (simp add: ascii_def)

lemma fixture_orders_info:
  "execute (sqlite_store other fixture) (ascii ''PRAGMA table_info('' @ ascii ''orders'' @ ascii '')'')
     = Inr (table_info 0 orders_columns)"
  by (simp add: fixture_eq sqlite_store_def sqlite_execute_def) (simp add: ascii_def)


lemma fixture_schema:
  "get_schema pr (sqlite_store other fixture)
     = Inr [[34920] @ ascii '' users:'',
            ascii ''  - id (INTEGER)'', ascii ''  - name (TEXT)'', ascii ''  - age (INTEGER)'',
            ascii ''  - email (TEXT)'',
            [34920] @ ascii '' orders:'',
            ascii ''  - id (INTEGER)'', ascii ''  - user_id (INTEGER)'',
            ascii ''  - product_name (TEXT)'', ascii ''  - price (REAL)'',
            ascii ''  - order_date (TEXT)'']"
proof -
  have c: "connect (sqlite_store other fixture) = None"
    by (simp add: sqlite_store_def)
  show ?thesis
    unfolding get_schema_def c fixture_catalog
    using fixture_users_info [of other] fixture_orders_info [of other]
    by (simp add: and_then_def item_def users_columns_def orders_columns_def)
       (simp add: ascii_def)
qed

text \<open>
  Where the catalog query and every \<open>PRAGMA table_info\<close> execute, the items are, table
  by table, the header and one line per column.
\<close>

lemma get_schema_lines_if_executed:
  "(connect st = None
      \<and> execute st (ascii ''SELECT name FROM sqlite_master WHERE type='' @ [39] @ ascii ''table'' @ [39]
                   @ ascii '';'')
          = Inr (map (\<lambda>n. [SqlText n]) names)
      \<and> (\<forall>n\<in>set names.
            execute st (ascii ''PRAGMA table_info('' @ n @ ascii '')'') = Inr (cols n)
            \<and> (\<forall>col\<in>set (cols n). 3 \<le> length col))
    \<longrightarrow> get_schema pr st
          = Inr (concat (map (\<lambda>n. ([34920] @ ascii '' '' @ n @ ascii '':'')
                                     # map (schema_line pr) (cols n)) names)))
   \<and> get_schema pr (sqlite_store other fixture)
       = Inr [[34920] @ ascii '' users:'',
            ascii ''  - id (INTEGER)'', ascii ''  - name (TEXT)'', ascii ''  - age (INTEGER)'',
            ascii ''  - email (TEXT)'',
            [34920] @ ascii '' orders:'',
            ascii ''  - id (INTEGER)'', ascii ''  - user_id (INTEGER)'',
            ascii ''  - product_name (TEXT)'', ascii ''  - price (REAL)'',
            ascii ''  - order_date (TEXT)'']"
proof (intro conjI impI)
  assume a: "connect st = None
      \<and> execute st (ascii ''SELECT name FROM sqlite_master WHERE type='' @ [39] @ ascii ''table'' @ [39]
                   @ ascii '';'')
          = Inr (map (\<lambda>n. [SqlText n]) names)
      \<and> (\<forall>n\<in>set names.
            execute st (ascii ''PRAGMA table_info('' @ n @ ascii '')'') = Inr (cols n)
            \<and> (\<forall>col\<in>set (cols n). 3 \<le> length col))"
  then have "schema_tables pr st (map (\<lambda>n. [SqlText n]) names)
     = Inr (concat (map (\<lambda>n. ([34920] @ ascii '' '' @ n @ ascii '':'')
                                # map (schema_line pr) (cols n)) names))"
    by (intro schema_tables_lines) simp
  with a show "get_schema pr st
          = Inr (concat (map (\<lambda>n. ([34920] @ ascii '' '' @ n @ ascii '':'')
                                     # map (schema_line pr) (cols n)) names))"
    by (simp add: get_schema_def and_then_def)
next
  show "get_schema pr (sqlite_store other fixture)
       = Inr [[34920] @ ascii '' users:'',
            ascii ''  - id (INTEGER)'', ascii ''  - name (TEXT)'', ascii ''  - age (INTEGER)'',
            ascii ''  - email (TEXT)'',
            [34920] @ ascii '' orders:'',
            ascii ''  - id (INTEGER)'', ascii ''  - user_id (INTEGER)'',
            ascii ''  - product_name (TEXT)'', ascii ''  - price (REAL)'',
            ascii ''  - order_date (TEXT)'']"
    by (rule fixture_schema)
qed

text \<open>
  C4. Reading \<open>db://schema\<close> is to give, for every table of the live catalog, a header
  line and one line \<open>  - column (type)\<close> per column. On the fixture store it does (the
  items are given above). The code pastes the table name into the \<open>PRAGMA\<close> statement
  without quoting it and has no handler: on the fixture with one more table, named
  \<open>my table\<close>, the catalog lists three tables, the statement for the third does not
  parse, and \<open>get_schema\<close> raises: no item is given, for none of the three tables.
\<close>

theorem get_schema_unquoted_name_raises:
  "execute (with_spaced_table (sqlite_store other fixture))
       (ascii ''SELECT name FROM sqlite_master WHERE type='' @ [39] @ ascii ''table'' @ [39]
          @ ascii '';'')
     = Inr [[SqlText (ascii ''users'')], [SqlText (ascii ''orders'')], [SqlText (ascii ''my table'')]]
   \<and> get_schema pr (with_spaced_table (sqlite_store other fixture))
     = Inl (Raise OperationalError
              (ascii ''near '' @ [34] @ ascii ''table'' @ [34] @ ascii '': syntax error''))"
proof -
  let ?st = "with_spaced_table (sqlite_store other fixture)"
  have c: "connect ?st = None"
    by (simp add: with_spaced_table_def sqlite_store_def)
  have t: "execute ?st
       (ascii ''SELECT name FROM sqlite_master WHERE type='' @ [39] @ ascii ''table'' @ [39]
          @ ascii '';'')
     = Inr [[SqlText (ascii ''users'')], [SqlText (ascii ''orders'')], [SqlText (ascii ''my table'')]]"
    using fixture_catalog [of other] by (simp add: with_spaced_table_def)
  have ne: "ascii ''PRAGMA table_info('' @ ascii ''users'' @ ascii '')''
              \<noteq> ascii ''SELECT name FROM sqlite_master WHERE type='' @ [39] @ ascii ''table''
                  @ [39] @ ascii '';''"
    "ascii ''PRAGMA table_info('' @ ascii ''orders'' @ ascii '')''
              \<noteq> ascii ''SELECT name FROM sqlite_master WHERE type='' @ [39] @ ascii ''table''
                  @ [39] @ ascii '';''"
    "ascii ''PRAGMA table_info('' @ ascii ''my table'' @ ascii '')''
              \<noteq> ascii ''SELECT name FROM sqlite_master WHERE type='' @ [39] @ ascii ''table''
                  @ [39] @ ascii '';''"
    "ascii ''PRAGMA table_info('' @ ascii ''users'' @ ascii '')'' \<noteq> ascii ''PRAGMA table_info(my table)''"
    "ascii ''PRAGMA table_info('' @ ascii ''orders'' @ ascii '')'' \<noteq> ascii ''PRAGMA table_info(my table)''"
    "ascii ''PRAGMA table_info('' @ ascii ''my table'' @ ascii '')'' = ascii ''PRAGMA table_info(my table)''"
    by (simp_all add: ascii_def)
  have u: "execute ?st (ascii ''PRAGMA table_info('' @ ascii ''users'' @ ascii '')'')
             = Inr (table_info 0 users_columns)"
    using fixture_users_info [of other] ne by (simp add: with_spaced_table_def)
  have o: "execute ?st (ascii ''PRAGMA table_info('' @ ascii ''orders'' @ ascii '')'')
             = Inr (table_info 0 orders_columns)"
    using fixture_orders_info [of other] ne by (simp add: with_spaced_table_def)
  have m: "execute ?st (ascii ''PRAGMA table_info('' @ ascii ''my table'' @ ascii '')'')
             = Inl (Raise OperationalError
                 (ascii ''near '' @ [34] @ ascii ''table'' @ [34] @ ascii '': syntax error''))"
    using ne by (simp add: with_spaced_table_def)
  have "get_schema pr ?st
     = Inl (Raise OperationalError
              (ascii ''near '' @ [34] @ ascii ''table'' @ [34] @ ascii '': syntax error''))"
    unfolding get_schema_def c t
    by (simp add: and_then_def item_def u o m users_columns_def orders_columns_def)
  with t show ?thesis by simp
qed

section \<open>Properties of the client\<close>

text \<open>
  C6. Opening a session gives a connected session or fails with \<open>ConnectionError\<close>:
  whichever step of \<open>connect\<close> raises (entering the streams, entering the session, the
  \<open>initialize\<close> handshake, or the listing of tools that verifies the connection), the
  contexts entered so far are released and the stored session is reset to \<open>None\<close>, and
  then \<open>ConnectionError\<close> is raised with the message of the underlying exception.
\<close>

theorem connect_atomic:
  "(enter_sse_client p = Some e
      \<longrightarrow> connect_client p c
          = (Some (Raise ConnectionError (ascii ''Failed to connect to MCP server: '' @ exc_str e)),
             c\<lparr>exit_stack := [], session := None\<rparr>))
   \<and> (enter_sse_client p = None \<and> enter_client_session p = Some e
      \<longrightarrow> connect_client p c
          = (Some (Raise ConnectionError (ascii ''Failed to connect to MCP server: '' @ exc_str e)),
             c\<lparr>exit_stack := [], session := None\<rparr>))
   \<and> (enter_sse_client p = None \<and> enter_client_session p = None \<and> session_initialize p = Some e
      \<longrightarrow> connect_client p c
          = (Some (Raise ConnectionError (ascii ''Failed to connect to MCP server: '' @ exc_str e)),
             c\<lparr>exit_stack := [], session := None, issued := issued c @ [Initialize]\<rparr>))
   \<and> (enter_sse_client p = None \<and> enter_client_session p = None \<and> session_initialize p = None
        \<and> session_list_tools p = Inl e
      \<longrightarrow> connect_client p c
          = (Some (Raise ConnectionError (ascii ''Failed to connect to MCP server: '' @ exc_str e)),
             c\<lparr>exit_stack := [], session := None, issued := issued c @ [Initialize, ListTools]\<rparr>))
   \<and> (fst (connect_client p c) = None
        \<or> (exc_class_of (the (fst (connect_client p c))) = ConnectionError
            \<and> session (snd (connect_client p c)) = None
            \<and> exit_stack (snd (connect_client p c)) = []))
   \<and> (fst (connect_client p c) = None
      \<longrightarrow> session (snd (connect_client p c)) = Some ClientSession)"
  by (auto simp: connect_client_def connect_try_def disconnect_def Let_def
           split: option.splits sum.splits)

theorem connect_atomic_witness:
  "connect_client (example_peer (Some refused) None None) (MCP_Client (ascii ''127.0.0.1'') 8100)
     = (Some (Raise ConnectionError
          (ascii ''Failed to connect to MCP server: All connection attempts failed'')),
        MCP_Client (ascii ''127.0.0.1'') 8100)
   \<and> connect_client (example_peer None (Some refused) None) (MCP_Client (ascii ''127.0.0.1'') 8100)
     = (Some (Raise ConnectionError
          (ascii ''Failed to connect to MCP server: All connection attempts failed'')),
        MCP_Client (ascii ''127.0.0.1'') 8100)
   \<and> connect_client (example_peer None None (Some refused)) (MCP_Client (ascii ''127.0.0.1'') 8100)
     = (Some (Raise ConnectionError
          (ascii ''Failed to connect to MCP server: All connection attempts failed'')),
        (MCP_Client (ascii ''127.0.0.1'') 8100)\<lparr>issued := [Initialize]\<rparr>)
   \<and> connect_client ((example_peer None None None)\<lparr>session_list_tools := Inl refused\<rparr>)
         (MCP_Client (ascii ''127.0.0.1'') 8100)
     = (Some (Raise ConnectionError
          (ascii ''Failed to connect to MCP server: All connection attempts failed'')),
        (MCP_Client (ascii ''127.0.0.1'') 8100)\<lparr>issued := [Initialize, ListTools]\<rparr>)
   \<and> session (snd (connect_client (example_peer None None None)
                      (MCP_Client (ascii ''127.0.0.1'') 8100))) = Some ClientSession"
proof -
  have m: "exit_stack (MCP_Client (ascii ''127.0.0.1'') 8100) = []"
    "session (MCP_Client (ascii ''127.0.0.1'') 8100) = None"
    "issued (MCP_Client (ascii ''127.0.0.1'') 8100) = []"
    by (simp_all add: MCP_Client_def)
  have t: "ascii ''Failed to connect to MCP server: '' @ exc_str refused
             = ascii ''Failed to connect to MCP server: All connection attempts failed''"
    by (simp add: refused_def ascii_def)
  have ok: "fst (connect_client (example_peer None None None)
                   (MCP_Client (ascii ''127.0.0.1'') 8100)) = None"
    by (simp add: connect_client_def connect_try_def example_peer_def)
  show ?thesis
    using connect_atomic [of "example_peer (Some refused) None None" refused
            "MCP_Client (ascii ''127.0.0.1'') 8100"]
          connect_atomic [of "example_peer None (Some refused) None" refused
            "MCP_Client (ascii ''127.0.0.1'') 8100"]
          connect_atomic [of "example_peer None None (Some refused)" refused
            "MCP_Client (ascii ''127.0.0.1'') 8100"]
          connect_atomic [of "(example_peer None None None)\<lparr>session_list_tools := Inl refused\<rparr>"
            refused "MCP_Client (ascii ''127.0.0.1'') 8100"]
          connect_atomic [of "example_peer None None None" refused
            "MCP_Client (ascii ''127.0.0.1'') 8100"] ok
    by (simp add: example_peer_def m t)
qed

text \<open>
  C9. Each operation that needs a session (\<open>list_tools\<close>, \<open>call_tool\<close>, \<open>get_prompt\<close>,
  \<open>get_resource\<close>) raises \<open>ConnectionError\<close> while the session is \<open>None\<close>, as it is
  before \<open>connect\<close> and after \<open>disconnect\<close>, and leaves the client as it was: no request
  is issued.
\<close>

theorem not_connected_raises:
  "(session c = None
      \<longrightarrow> list_tools p c = (Inl (Raise ConnectionError (ascii ''Not connected to MCP server'')), c)
        \<and> call_tool p dump c tool arguments
            = (Inl (Raise ConnectionError (ascii ''Not connected to MCP server'')), c)
        \<and> get_prompt p c prompt kwargs
            = (Inl (Raise ConnectionError (ascii ''Not connected to MCP server'')), c)
        \<and> get_resource p c uri
            = (Inl (Raise ConnectionError (ascii ''Not connected to MCP server'')), c))
   \<and> session (MCP_Client host port) = None
   \<and> session (disconnect c) = None"
  by (simp add: list_tools_def call_tool_def get_prompt_def get_resource_def not_connected_def
      MCP_Client_def disconnect_def)

theorem not_connected_raises_witness:
  "list_tools (example_peer None None None) (MCP_Client (ascii ''127.0.0.1'') 8100)
     = (Inl (Raise ConnectionError (ascii ''Not connected to MCP server'')),
        MCP_Client (ascii ''127.0.0.1'') 8100)
   \<and> call_tool (example_peer None None None) (\<lambda>t. t) (MCP_Client (ascii ''127.0.0.1'') 8100)
         (ascii ''query_db'') (Some [(ascii ''sql'', JStr (ascii ''SELECT 1''))])
     = (Inl (Raise ConnectionError (ascii ''Not connected to MCP server'')),
        MCP_Client (ascii ''127.0.0.1'') 8100)
   \<and> get_prompt (example_peer None None None) (MCP_Client (ascii ''127.0.0.1'') 8100)
         (ascii ''sql_prompt'') [(ascii ''question'', JStr (ascii ''how many users''))]
     = (Inl (Raise ConnectionError (ascii ''Not connected to MCP server'')),
        MCP_Client (ascii ''127.0.0.1'') 8100)
   \<and> get_resource (example_peer None None None) (MCP_Client (ascii ''127.0.0.1'') 8100)
         (ascii ''db://schema'')
     = (Inl (Raise ConnectionError (ascii ''Not connected to MCP server'')),
        MCP_Client (ascii ''127.0.0.1'') 8100)
   \<and> issued (MCP_Client (ascii ''127.0.0.1'') 8100) = []"
proof -
  have m: "session (MCP_Client (ascii ''127.0.0.1'') 8100) = None"
    "issued (MCP_Client (ascii ''127.0.0.1'') 8100) = []"
    by (simp_all add: MCP_Client_def)
  show ?thesis
    using not_connected_raises [where c = "MCP_Client (ascii ''127.0.0.1'') 8100"
            and p = "example_peer None None None" and dump = "\<lambda>t. t"
            and tool = "ascii ''query_db''"
            and arguments = "Some [(ascii ''sql'', JStr (ascii ''SELECT 1''))]"
            and prompt = "ascii ''sql_prompt''"
            and kwargs = "[(ascii ''question'', JStr (ascii ''how many users''))]"
            and uri = "ascii ''db://schema''"] m
    by blast
qed

text \<open>
  C10. A \<open>call_tool\<close> on a connected client that returns gives a result whose error code
  is 1 when the response is flagged \<open>isError\<close> and 0 otherwise, never another value, and
  whose content is the serialisation of each content item of the response, joined by
  newlines.
\<close>

theorem call_tool_result:
  "(session c \<noteq> None \<and> session_call_tool p name (get_or arguments []) = Inr r
      \<longrightarrow> fst (call_tool p dump c name arguments)
          = Inr \<lparr>content = join [10] (map dump (result_content r)),
                 error_code = (if isError r then 1 else 0)\<rparr>)
   \<and> (\<forall>res. fst (call_tool p dump c name arguments) = Inr res
      \<longrightarrow> (error_code res = 1 \<or> error_code res = 0)
          \<and> (\<exists>r. session_call_tool p name (get_or arguments []) = Inr r
                \<and> (error_code res = 1) = isError r
                \<and> content res = join [10] (map dump (result_content r))))"
  by (auto simp: call_tool_def Let_def split: sum.splits if_splits)

theorem call_tool_result_witness:
  "fst (call_tool (example_peer None None None) (\<lambda>t. t)
          (snd (connect_client (example_peer None None None)
                  (MCP_Client (ascii ''127.0.0.1'') 8100)))
          (ascii ''query_db'') (Some [(ascii ''sql'', JStr (ascii ''SELECT id FROM t''))]))
     = Inr \<lparr>content = ascii ''(1,)'' @ [10] @ ascii ''(2,)'', error_code = 0\<rparr>
   \<and> fst (call_tool (example_peer None None None) (\<lambda>t. t)
          (snd (connect_client (example_peer None None None)
                  (MCP_Client (ascii ''127.0.0.1'') 8100)))
          (ascii ''no_such_tool'') None)
     = Inr \<lparr>content = ascii ''(1,)'' @ [10] @ ascii ''(2,)'', error_code = 1\<rparr>"
proof -
  let ?p = "example_peer None None None :: pystr peer"
  let ?c = "snd (connect_client ?p (MCP_Client (ascii ''127.0.0.1'') 8100))"
  have s: "session ?c \<noteq> None"
    by (simp add: connect_client_def connect_try_def example_peer_def)
  have r1: "session_call_tool ?p (ascii ''query_db'')
              (get_or (Some [(ascii ''sql'', JStr (ascii ''SELECT id FROM t''))]) [])
            = Inr \<lparr>result_content = [ascii ''(1,)'', ascii ''(2,)''], isError = False\<rparr>"
    by (simp add: example_peer_def)
  have r2: "session_call_tool ?p (ascii ''no_such_tool'') (get_or None [])
            = Inr \<lparr>result_content = [ascii ''(1,)'', ascii ''(2,)''], isError = True\<rparr>"
    by (simp add: example_peer_def ascii_def)
  show ?thesis
    using call_tool_result [of ?c ?p "ascii ''query_db''"
            "Some [(ascii ''sql'', JStr (ascii ''SELECT id FROM t''))]"
            "\<lparr>result_content = [ascii ''(1,)'', ascii ''(2,)''], isError = False\<rparr>" "\<lambda>t. t"]
          call_tool_result [of ?c ?p "ascii ''no_such_tool''" None
            "\<lparr>result_content = [ascii ''(1,)'', ascii ''(2,)''], isError = True\<rparr>" "\<lambda>t. t"]
          s r1 r2
    by simp
qed

section \<open>Properties of the host\<close>







end
